theory Spec2Isabelle
  imports Complex_Main
begin

section \<open>Values of the host runtime\<close>

text \<open>
  The binding in \<^verbatim>\<open>CLAHE.cc\<close> receives dynamically typed JavaScript values and C++
  doubles. A double is modelled by its value: not-a-number, the two infinities, or a
  finite value (a real number; the binding only compares, rounds and truncates doubles,
  all of which are exact operations, so no rounding error of floating-point arithmetic
  is involved).
\<close>

datatype double = NaN | PInf | NInf | Fin real

text \<open>
  A JavaScript value. An object is given by its properties as \<^verbatim>\<open>Nan::Has\<close> and
  \<^verbatim>\<open>Nan::Get\<close> see them; an array by its elements (a hole reads as \<open>Undefined\<close>).
\<close>

datatype jsval =
    Undefined
  | Null
  | Boolean bool
  | Number double
  | String string
  | Symbol
  | BigInt int
  | Array "jsval list"
  | Object "(string \<times> jsval) list"

text \<open>\<^verbatim>\<open>cv::Size\<close>: two C++ \<^verbatim>\<open>int\<close> fields. The binding never does arithmetic on them,
  it only compares them with 1, so they are kept as integers.\<close>

record Size =
  width :: int
  height :: int

definition cv_Size :: "int \<Rightarrow> int \<Rightarrow> Size" where
  "cv_Size w h = \<lparr>width = w, height = h\<rparr>"

text \<open>The state of the wrapped \<^verbatim>\<open>cv::CLAHE\<close> instance: the two parameters that
  \<^verbatim>\<open>cv::createCLAHE\<close>, \<^verbatim>\<open>setClipLimit\<close> and \<^verbatim>\<open>setTilesGridSize\<close> store, named by the
  accessors that read them back.\<close>

record CLAHE_inst =
  getClipLimit :: double
  getTilesGridSize :: Size

text \<open>
  What the binding takes from its surroundings, none of it defined in \<^verbatim>\<open>CLAHE.cc\<close>:
  \<^item> \<open>cast_oob\<close>: the result of \<^verbatim>\<open>static_cast<int>\<close> on a double whose truncation is not
    an \<^verbatim>\<open>int\<close> (NaN, an infinity, a value beyond 32 bits). C++ leaves it undefined; the
    hardware decides (x86-64 gives \<open>-2^31\<close>);
  \<^item> \<open>StringToNumber\<close>, \<open>ObjectToNumber\<close>: ECMAScript's ToNumber on strings and on
    objects (the latter may throw, which is \<open>None\<close>);
  \<^item> \<open>Double_unwrap\<close>, \<open>Mat_unwrap\<close>: what \<^verbatim>\<open>FF::DoubleConverter\<close> and
    \<^verbatim>\<open>Mat::Converter\<close> make of an argument (\<open>None\<close>: they raise);
  \<^item> \<open>clahe_apply\<close>: \<^verbatim>\<open>cv::CLAHE::apply(src, dst)\<close>, the content of \<open>dst\<close> afterwards;
  \<^item> \<open>Mat_empty\<close>: a default-constructed \<^verbatim>\<open>cv::Mat\<close>.
\<close>

record 'm env =
  cast_oob :: "double \<Rightarrow> int"
  StringToNumber :: "string \<Rightarrow> double"
  ObjectToNumber :: "jsval \<Rightarrow> double option"
  Double_unwrap :: "jsval \<Rightarrow> double option"
  Mat_unwrap :: "jsval \<Rightarrow> 'm option"
  clahe_apply :: "CLAHE_inst \<Rightarrow> 'm \<Rightarrow> 'm \<Rightarrow> 'm"
  Mat_empty :: 'm

section \<open>Primitives of C++, V8 and Nan used by the binding\<close>

text \<open>\<^verbatim>\<open>operator<\<close> and \<^verbatim>\<open>operator<=\<close> on doubles: every comparison with NaN is false.\<close>

fun dless :: "double \<Rightarrow> double \<Rightarrow> bool" where
  "dless NaN _ = False"
| "dless _ NaN = False"
| "dless (Fin x) (Fin y) = (x < y)"
| "dless _ NInf = False"
| "dless NInf _ = True"
| "dless PInf _ = False"
| "dless _ PInf = True"


text \<open>\<^verbatim>\<open>std::max(a, b)\<close> is \<^verbatim>\<open>(a < b) ? b : a\<close>.\<close>

definition std_max_double :: "double \<Rightarrow> double \<Rightarrow> double" where
  "std_max_double a b = (if dless a b then b else a)"

definition std_max_int :: "int \<Rightarrow> int \<Rightarrow> int" where
  "std_max_int a b = (if a < b then b else a)"

text \<open>\<^verbatim>\<open>std::round\<close>: to the nearest integer, halfway cases away from zero.\<close>

definition cround :: "real \<Rightarrow> int" where
  "cround x = (if 0 \<le> x then \<lfloor>x + 1 / 2\<rfloor> else - \<lfloor>- x + 1 / 2\<rfloor>)"

fun std_round :: "double \<Rightarrow> double" where
  "std_round (Fin x) = Fin (of_int (cround x))"
| "std_round d = d"

text \<open>\<^verbatim>\<open>static_cast<int>(d)\<close>: truncation toward zero where that is a 32-bit \<^verbatim>\<open>int\<close>.\<close>

definition trunc :: "real \<Rightarrow> int" where
  "trunc x = (if 0 \<le> x then \<lfloor>x\<rfloor> else - \<lfloor>- x\<rfloor>)"

definition static_cast_int :: "'m env \<Rightarrow> double \<Rightarrow> int" where
  "static_cast_int env d =
     (case d of
        Fin x \<Rightarrow> if - 2147483649 < x \<and> x < 2147483648 then trunc x else cast_oob env d
      | _ \<Rightarrow> cast_oob env d)"

text \<open>The implicit conversion of an \<^verbatim>\<open>int\<close> to a double.\<close>

definition int_to_double :: "int \<Rightarrow> double" where
  "int_to_double i = Fin (of_int i)"

fun IsUndefined :: "jsval \<Rightarrow> bool" where
  "IsUndefined Undefined = True"
| "IsUndefined _ = False"

fun IsNull :: "jsval \<Rightarrow> bool" where
  "IsNull Null = True"
| "IsNull _ = False"

fun IsNumber :: "jsval \<Rightarrow> bool" where
  "IsNumber (Number _) = True"
| "IsNumber _ = False"

fun IsArray :: "jsval \<Rightarrow> bool" where
  "IsArray (Array _) = True"
| "IsArray _ = False"

fun IsObject :: "jsval \<Rightarrow> bool" where
  "IsObject (Array _) = True"
| "IsObject (Object _) = True"
| "IsObject _ = False"

text \<open>\<^verbatim>\<open>Nan::Has(obj, key)\<close> and \<^verbatim>\<open>Nan::Get(obj, key)\<close>; a missing property reads as
  \<open>Undefined\<close>.\<close>

definition Has :: "(string \<times> jsval) list \<Rightarrow> string \<Rightarrow> bool" where
  "Has obj key = (map_of obj key \<noteq> None)"

definition Get :: "(string \<times> jsval) list \<Rightarrow> string \<Rightarrow> jsval" where
  "Get obj key = (case map_of obj key of Some v \<Rightarrow> v | None \<Rightarrow> Undefined)"

text \<open>\<^verbatim>\<open>info[i]\<close>: an index at or beyond \<^verbatim>\<open>info.Length()\<close> reads as \<open>Undefined\<close>.\<close>

definition info_at :: "jsval list \<Rightarrow> nat \<Rightarrow> jsval" where
  "info_at info i = (if i < length info then info ! i else Undefined)"

text \<open>\<^verbatim>\<open>Nan::To<double>\<close> is V8's \<^verbatim>\<open>NumberValue\<close>, that is ECMAScript's ToNumber. It
  yields nothing only when the conversion throws.\<close>

fun To_double :: "'m env \<Rightarrow> jsval \<Rightarrow> double option" where
  "To_double env Undefined = Some NaN"
| "To_double env Null = Some (Fin 0)"
| "To_double env (Boolean b) = Some (Fin (if b then 1 else 0))"
| "To_double env (Number d) = Some d"
| "To_double env (String s) = Some (StringToNumber env s)"
| "To_double env Symbol = None"
| "To_double env (BigInt i) = None"
| "To_double env (Array arr) = ObjectToNumber env (Array arr)"
| "To_double env (Object obj) = ObjectToNumber env (Object obj)"

definition FromMaybe :: "'a option \<Rightarrow> 'a \<Rightarrow> 'a" where
  "FromMaybe m dflt = (case m of Some v \<Rightarrow> v | None \<Rightarrow> dflt)"

text \<open>\<^verbatim>\<open>Converter::arg(i, &out, info)\<close>: fails when argument \<open>i\<close> is absent or does not
  unwrap.\<close>

definition Converter_arg :: "(jsval \<Rightarrow> 'a option) \<Rightarrow> nat \<Rightarrow> jsval list \<Rightarrow> 'a option" where
  "Converter_arg unwrap i info = (if i < length info then unwrap (info ! i) else None)"

section \<open>The anonymous namespace of CLAHE.cc\<close>

definition sanitizeSize :: "Size \<Rightarrow> Size" where
  "sanitizeSize sz =
     (let width = std_max_int 1 (Size.width sz);
          height = std_max_int 1 (Size.height sz)
      in cv_Size width height)"

lemma size_of_property:
  "map_of obj key = Some v \<Longrightarrow> size v < Suc (size_list (size_prod (\<lambda>_. 0) size) obj)"
  by (induction obj) (auto split: if_splits)

text \<open>
  \<^verbatim>\<open>bool extractSize(v8::Local<v8::Value> value, cv::Size& out)\<close>. The source assigns
  \<open>out\<close> only on the line before each \<^verbatim>\<open>return true\<close>, so \<open>Some s\<close> stands for "returned
  true with \<open>out = s\<close>" and \<open>None\<close> for "returned false, \<open>out\<close> untouched".
\<close>

function extractSize :: "'m env \<Rightarrow> jsval \<Rightarrow> Size \<Rightarrow> Size option" where
  "extractSize env (Array arr) out =
     (if length arr < 2 then None
      else
        let width = FromMaybe (To_double env (arr ! 0)) (int_to_double (Size.width out));
            height = FromMaybe (To_double env (arr ! 1)) (int_to_double (Size.height out))
        in Some (sanitizeSize (cv_Size (static_cast_int env (std_round width))
                                       (static_cast_int env (std_round height)))))"
| "extractSize env (Object obj) out =
     (if Has obj ''width'' \<or> Has obj ''height'' then
        let width = FromMaybe (To_double env (Get obj ''width'')) (int_to_double (Size.width out));
            height = FromMaybe (To_double env (Get obj ''height'')) (int_to_double (Size.height out))
        in Some (sanitizeSize (cv_Size (static_cast_int env (std_round width))
                                       (static_cast_int env (std_round height))))
      else if Has obj ''tileGridSize'' then extractSize env (Get obj ''tileGridSize'') out
      else None)"
| "extractSize env (Number len) out =
     (let side = std_max_int 1 (static_cast_int env (std_round len))
      in Some (cv_Size side side))"
| "extractSize env Undefined out = None"
| "extractSize env Null out = None"
| "extractSize env (Boolean b) out = None"
| "extractSize env (String s) out = None"
| "extractSize env Symbol out = None"
| "extractSize env (BigInt i) out = None"
  by pat_completeness auto
termination
proof (relation "measure (\<lambda>(env, value, out). size value)")
  show "wf (measure (\<lambda>(env :: 'm env, value, out :: Size). size value))"
    by simp
next
  fix env :: "'m env" and obj and out :: Size
  assume "Has obj ''tileGridSize''"
  then obtain v where v: "map_of obj ''tileGridSize'' = Some v"
    by (auto simp: Has_def)
  then have "size (Get obj ''tileGridSize'') < size (Object obj)"
    using size_of_property [OF v] by (simp add: Get_def)
  then show "((env, Get obj ''tileGridSize'', out), (env, Object obj, out))
             \<in> measure (\<lambda>(env, value, out). size value)"
    by simp
qed

text \<open>\<^verbatim>\<open>bool parseClipLimit(v8::Local<v8::Value> value, double& clipLimit)\<close>: \<open>Some c\<close> is
  "returned true with \<open>clipLimit = c\<close>", \<open>None\<close> is "returned false".\<close>

definition parseClipLimit :: "'m env \<Rightarrow> jsval \<Rightarrow> double \<Rightarrow> double option" where
  "parseClipLimit env value clipLimit =
     (if \<not> IsUndefined value \<and> \<not> IsNull value then
        (if \<not> IsNumber value then None
         else Some (FromMaybe (To_double env value) clipLimit))
      else Some clipLimit)"

section \<open>The methods of the CLAHE class\<close>

text \<open>
  How a call ends other than by returning: \<^verbatim>\<open>tryCatch.throwError(message)\<close>;
  \<^verbatim>\<open>tryCatch.reThrow()\<close> of what the converter of argument \<open>i\<close> raised; the assertion
  \<^verbatim>\<open>FF_ASSERT_CONSTRUCT_CALL()\<close> on a call without \<^verbatim>\<open>new\<close>; and
  \<^verbatim>\<open>Nan::ObjectWrap::Unwrap\<close> on a receiver that wraps no CLAHE.
\<close>

datatype error =
    ThrowError string
  | ReThrow nat
  | NotConstructCall
  | UnwrapFailed

text \<open>What a method hands to \<^verbatim>\<open>info.GetReturnValue().Set\<close>: a JavaScript object (by its
  identity), a wrapped matrix, a number, or a wrapped \<^verbatim>\<open>cv::Size2d\<close>.\<close>

datatype 'm retval =
    JSObject nat
  | WrappedMat 'm
  | JSNumber double
  | WrappedSize2d double double

text \<open>The JavaScript objects that wrap a CLAHE, by identity, each with its instance.\<close>

type_synonym heap = "nat \<Rightarrow> CLAHE_inst option"

text \<open>\<^verbatim>\<open>cv::createCLAHE(clipLimit, tileGridSize)\<close> stores its two arguments.\<close>

definition createCLAHE :: "double \<Rightarrow> Size \<Rightarrow> CLAHE_inst" where
  "createCLAHE clipLimit tiles = \<lparr>getClipLimit = clipLimit, getTilesGridSize = tiles\<rparr>"

text \<open>
  Lines 102 to 110 of \<^verbatim>\<open>CLAHE::New\<close>: the first argument, starting from
  \<open>clipLimit = 40.0\<close> and \<open>tiles = (8, 8)\<close>. The result of \<open>extractSize\<close> on the options
  object is discarded; \<^verbatim>\<open>&&\<close> calls \<open>extractSize\<close> only after \<open>parseClipLimit\<close> has
  failed.
\<close>

definition New_first :: "'m env \<Rightarrow> jsval list \<Rightarrow> error + double \<times> Size" where
  "New_first env info =
     (let clipLimit = Fin 40; tiles = cv_Size 8 8 in
      if length info > 0 \<and> IsObject (info_at info 0) \<and> \<not> IsArray (info_at info 0)
         \<and> \<not> IsNumber (info_at info 0) then
        (let opts = (case info_at info 0 of Object obj \<Rightarrow> obj | _ \<Rightarrow> []);
             clipLimit' =
               (if Has opts ''clipLimit''
                then FromMaybe (To_double env (Get opts ''clipLimit'')) clipLimit
                else clipLimit);
             tiles' = (case extractSize env (Object opts) tiles of Some t \<Rightarrow> t | None \<Rightarrow> tiles)
         in Inr (clipLimit', tiles'))
      else if length info > 0 then
        (case parseClipLimit env (info_at info 0) clipLimit of
           Some c \<Rightarrow> Inr (c, tiles)
         | None \<Rightarrow>
             (case extractSize env (info_at info 0) tiles of
                Some t \<Rightarrow> Inr (clipLimit, t)
              | None \<Rightarrow> Inl (ThrowError ''Invalid arguments for CLAHE constructor'')))
      else Inr (clipLimit, tiles))"

text \<open>Lines 112 to 117: the second argument, then the final clamping.\<close>

definition New_second :: "'m env \<Rightarrow> jsval list \<Rightarrow> double \<times> Size \<Rightarrow> error + CLAHE_inst" where
  "New_second env info ct =
     (let clipLimit = fst ct; tiles = snd ct in
      if length info > 1 then
        (case extractSize env (info_at info 1) tiles of
           None \<Rightarrow> Inl (ThrowError ''Unable to parse tileGridSize'')
         | Some t \<Rightarrow> Inr (createCLAHE (std_max_double (Fin 0) clipLimit) (sanitizeSize t)))
      else Inr (createCLAHE (std_max_double (Fin 0) clipLimit) (sanitizeSize tiles)))"

text \<open>
  \<^verbatim>\<open>NAN_METHOD(CLAHE::New)\<close>. \<open>isConstructCall\<close> is \<^verbatim>\<open>info.IsConstructCall()\<close> and
  \<open>holder\<close> is \<^verbatim>\<open>info.Holder()\<close>, the object that \<^verbatim>\<open>new\<close> allocated; it wraps an
  instance only when the last three lines are reached.
\<close>

definition New :: "'m env \<Rightarrow> bool \<Rightarrow> jsval list \<Rightarrow> nat \<Rightarrow> heap \<Rightarrow> (error + 'm retval) \<times> heap" where
  "New env isConstructCall info holder heap =
     (if \<not> isConstructCall then (Inl NotConstructCall, heap)
      else
        case New_first env info of
          Inl e \<Rightarrow> (Inl e, heap)
        | Inr ct \<Rightarrow>
            (case New_second env info ct of
               Inl e \<Rightarrow> (Inl e, heap)
             | Inr self \<Rightarrow> (Inr (JSObject holder), heap(holder \<mapsto> self))))"

text \<open>\<^verbatim>\<open>NAN_METHOD(CLAHE::Apply)\<close>. \<open>this\<close> is \<^verbatim>\<open>info.This()\<close>.\<close>

definition Apply :: "'m env \<Rightarrow> nat \<Rightarrow> jsval list \<Rightarrow> heap \<Rightarrow> (error + 'm retval) \<times> heap" where
  "Apply env this info heap =
     (case heap this of
        None \<Rightarrow> (Inl UnwrapFailed, heap)
      | Some self \<Rightarrow>
          (case Converter_arg (Mat_unwrap env) 0 info of
             None \<Rightarrow> (Inl (ReThrow 0), heap)
           | Some src \<Rightarrow>
               if length info > 1 \<and> \<not> IsUndefined (info_at info 1) \<and> \<not> IsNull (info_at info 1) then
                 (case Converter_arg (Mat_unwrap env) 1 info of
                    None \<Rightarrow> (Inl (ReThrow 1), heap)
                  | Some dst \<Rightarrow> (Inr (WrappedMat (clahe_apply env self src dst)), heap))
               else (Inr (WrappedMat (clahe_apply env self src (Mat_empty env))), heap)))"

text \<open>\<^verbatim>\<open>NAN_METHOD(CLAHE::SetClipLimit)\<close>.\<close>

definition SetClipLimit :: "'m env \<Rightarrow> nat \<Rightarrow> jsval list \<Rightarrow> heap \<Rightarrow> (error + 'm retval) \<times> heap" where
  "SetClipLimit env this info heap =
     (case heap this of
        None \<Rightarrow> (Inl UnwrapFailed, heap)
      | Some self \<Rightarrow>
          (case Converter_arg (Double_unwrap env) 0 info of
             None \<Rightarrow> (Inl (ReThrow 0), heap)
           | Some clipLimit \<Rightarrow>
               (Inr (JSObject this),
                heap(this \<mapsto> self\<lparr>getClipLimit := std_max_double (Fin 0) clipLimit\<rparr>))))"

text \<open>\<^verbatim>\<open>NAN_METHOD(CLAHE::GetClipLimit)\<close>, which the getter \<^verbatim>\<open>ClipLimitGetter\<close> repeats.\<close>

definition GetClipLimit :: "'m env \<Rightarrow> nat \<Rightarrow> jsval list \<Rightarrow> heap \<Rightarrow> (error + 'm retval) \<times> heap" where
  "GetClipLimit env this info heap =
     (case heap this of
        None \<Rightarrow> (Inl UnwrapFailed, heap)
      | Some self \<Rightarrow> (Inr (JSNumber (getClipLimit self)), heap))"

text \<open>\<^verbatim>\<open>NAN_METHOD(CLAHE::SetTilesGridSize)\<close>.\<close>

definition SetTilesGridSize :: "'m env \<Rightarrow> nat \<Rightarrow> jsval list \<Rightarrow> heap \<Rightarrow> (error + 'm retval) \<times> heap" where
  "SetTilesGridSize env this info heap =
     (case heap this of
        None \<Rightarrow> (Inl UnwrapFailed, heap)
      | Some self \<Rightarrow>
          (let tiles = sanitizeSize (cv_Size 8 8) in
           case extractSize env (info_at info 0) tiles of
             None \<Rightarrow> (Inl (ThrowError ''Unable to parse tilesGridSize''), heap)
           | Some t \<Rightarrow>
               (Inr (JSObject this), heap(this \<mapsto> self\<lparr>getTilesGridSize := sanitizeSize t\<rparr>))))"

text \<open>\<^verbatim>\<open>NAN_METHOD(CLAHE::GetTilesGridSize)\<close>, which \<^verbatim>\<open>TilesGridSizeGetter\<close> repeats.\<close>

definition GetTilesGridSize :: "'m env \<Rightarrow> nat \<Rightarrow> jsval list \<Rightarrow> heap \<Rightarrow> (error + 'm retval) \<times> heap" where
  "GetTilesGridSize env this info heap =
     (case heap this of
        None \<Rightarrow> (Inl UnwrapFailed, heap)
      | Some self \<Rightarrow>
          (let tiles = getTilesGridSize self
           in (Inr (WrappedSize2d (int_to_double (Size.width tiles))
                                  (int_to_double (Size.height tiles))), heap)))"

text \<open>\<^verbatim>\<open>NAN_METHOD(CLAHE::CollectGarbage)\<close>: \<^verbatim>\<open>cv::CLAHE::collectGarbage\<close> frees buffers
  and leaves both parameters as they are.\<close>

definition CollectGarbage :: "'m env \<Rightarrow> nat \<Rightarrow> jsval list \<Rightarrow> heap \<Rightarrow> (error + 'm retval) \<times> heap" where
  "CollectGarbage env this info heap =
     (case heap this of
        None \<Rightarrow> (Inl UnwrapFailed, heap)
      | Some self \<Rightarrow> (Inr (JSObject this), heap))"

text \<open>
  A concrete surrounding for running the model: the out-of-range cast of x86-64, a
  ToNumber that reads every string and object as NaN, a double converter that takes
  numbers only, and matrices stood for by natural numbers (an object unwraps to the
  number of its properties, and equalisation returns the source plus the clip limit's
  sign, so that results differ between inputs).
\<close>

definition x86_env :: "nat env" where
  "x86_env =
     \<lparr>cast_oob = (\<lambda>d. - 2147483648),
      StringToNumber = (\<lambda>s. NaN),
      ObjectToNumber = (\<lambda>v. Some NaN),
      Double_unwrap = (\<lambda>v. case v of Number d \<Rightarrow> Some d | _ \<Rightarrow> None),
      Mat_unwrap = (\<lambda>v. case v of Object obj \<Rightarrow> Some (length obj) | _ \<Rightarrow> None),
      clahe_apply = (\<lambda>self src dst. src + (if dless (Fin 0) (getClipLimit self) then 1 else 0)),
      Mat_empty = 0\<rparr>"

text \<open>A wrapped instance as the constructor leaves it when called without arguments.\<close>

definition inst0 :: CLAHE_inst where
  "inst0 = createCLAHE (Fin 40) (cv_Size 8 8)"

section \<open>The properties stated of a configuration\<close>



section \<open>Facts about the primitives and the two parsers\<close>

lemma sanitizeSize_simp:
  "sanitizeSize sz = cv_Size (max 1 (Size.width sz)) (max 1 (Size.height sz))"
  by (simp add: sanitizeSize_def std_max_int_def max_def)

lemma cv_Size_sel [simp]: "Size.width (cv_Size w h) = w" "Size.height (cv_Size w h) = h"
  by (simp_all add: cv_Size_def)

lemma cv_Size_eq [simp]: "(cv_Size w h = cv_Size w' h') = (w = w' \<and> h = h')"
  by (simp add: cv_Size_def)


lemma extractSize_ge1:
  "extractSize env v out = Some s \<Longrightarrow> 1 \<le> Size.width s \<and> 1 \<le> Size.height s"
proof (induction env v out rule: extractSize.induct)
  case (1 env arr out)
  then show ?case
    by (auto simp: Let_def sanitizeSize_simp split: if_splits)
next
  case (2 env obj out)
  then show ?case
    by (auto simp: Let_def sanitizeSize_simp split: if_splits)
next
  case (3 env len out)
  then show ?case
    by (auto simp: Let_def std_max_int_def)
qed simp_all

lemma extractSize_None_out:
  "extractSize env v out = None \<Longrightarrow> extractSize env v out' = None"
proof (induction env v out rule: extractSize.induct)
  case (2 env obj out)
  then show ?case
    by (auto simp: Let_def split: if_splits)
qed (auto simp: Let_def split: if_splits)


lemma trunc_of_int [simp]: "trunc (of_int k) = k"
  by (simp add: trunc_def)

lemma static_cast_int_round:
  assumes "- 2147483648 \<le> cround x" "cround x \<le> 2147483647"
  shows "static_cast_int env (std_round (Fin x)) = cround x"
proof -
  have "- 2147483649 < (of_int (cround x) :: real)" "(of_int (cround x) :: real) < 2147483648"
    using assms by linarith+
  then show ?thesis
    by (simp add: static_cast_int_def)
qed

lemma cround_pos_bounds:
  assumes "0 < x" "x < 4294967295 / 2"
  shows "0 \<le> cround x" "cround x \<le> 2147483647"
proof -
  show "0 \<le> cround x" using assms by (simp add: cround_def)
  have "x + 1 / 2 < 2147483648" using assms by simp
  then have "\<lfloor>x + 1 / 2\<rfloor> < 2147483648" by (simp add: floor_less_iff)
  then show "cround x \<le> 2147483647" using assms by (simp add: cround_def)
qed


lemma extractSize_pair:
  "extractSize env (Array [Number a, Number b]) out =
     Some (cv_Size (max 1 (static_cast_int env (std_round a))) (max 1 (static_cast_int env (std_round b))))"
  by (simp add: FromMaybe_def sanitizeSize_simp)

lemma extractSize_width_height:
  "extractSize env (Object [(''width'', Number a), (''height'', Number b)]) out =
     Some (cv_Size (max 1 (static_cast_int env (std_round a))) (max 1 (static_cast_int env (std_round b))))"
  by (simp add: FromMaybe_def sanitizeSize_simp Has_def Get_def)

lemma extractSize_nested_pair:
  "extractSize env (Object [(''tileGridSize'', Array [Number a, Number b])]) out =
     Some (cv_Size (max 1 (static_cast_int env (std_round a))) (max 1 (static_cast_int env (std_round b))))"
  by (simp add: FromMaybe_def sanitizeSize_simp Has_def Get_def)

lemma cast_round_pos:
  assumes "0 < x" "x < 4294967295 / 2"
  shows "static_cast_int env (std_round (Fin x)) = cround x"
  using cround_pos_bounds [OF assms] by (intro static_cast_int_round) simp_all

lemma cround_ge_half: "1 / 2 \<le> x \<Longrightarrow> 1 \<le> cround x"
  by (simp add: cround_def le_floor_iff)

lemma extractSize_missing_component:
  "extractSize env (Object [(''width'', Number a)]) out =
     Some (cv_Size (max 1 (static_cast_int env (std_round a))) (max 1 (cast_oob env NaN)))"
  by (simp add: Has_def Get_def FromMaybe_def sanitizeSize_simp static_cast_int_def)

lemma sanitizeSize_id: "1 \<le> Size.width s \<Longrightarrow> 1 \<le> Size.height s \<Longrightarrow> sanitizeSize s = s"
  by (simp add: sanitizeSize_simp cv_Size_def max_def)

lemma sanitizeSize_extractSize:
  "extractSize env v out = Some s \<Longrightarrow> sanitizeSize s = s"
  using extractSize_ge1 [of env v out s] by (simp add: sanitizeSize_id)

lemma sanitizeSize_extractSize_default:
  "sanitizeSize (case extractSize env v (cv_Size 8 8) of Some t \<Rightarrow> t | None \<Rightarrow> cv_Size 8 8)
     = (case extractSize env v (cv_Size 8 8) of Some t \<Rightarrow> t | None \<Rightarrow> cv_Size 8 8)"
proof (cases "extractSize env v (cv_Size 8 8)")
  case None
  then show ?thesis
    by (simp add: sanitizeSize_id del: extractSize.simps)
next
  case (Some t)
  then show ?thesis
    using sanitizeSize_extractSize [OF Some] by (simp del: extractSize.simps)
qed

lemma info_at_simps [simp]:
  "info_at (a # rest) 0 = a" "info_at (a # b # rest) (Suc 0) = b" "info_at [] i = Undefined"
  by (simp_all add: info_at_def)

lemma New_first_Nil: "New_first env [] = Inr (Fin 40, cv_Size 8 8)"
  by (simp add: New_first_def)

lemma New_first_Object:
  "New_first env (Object obj # rest) =
     Inr (if Has obj ''clipLimit'' then FromMaybe (To_double env (Get obj ''clipLimit'')) (Fin 40)
          else Fin 40,
          case extractSize env (Object obj) (cv_Size 8 8) of Some t \<Rightarrow> t | None \<Rightarrow> cv_Size 8 8)"
  by (simp add: New_first_def Let_def)

lemma New_first_other:
  "\<not> (IsObject a \<and> \<not> IsArray a) \<Longrightarrow>
   New_first env (a # rest) =
     (case parseClipLimit env a (Fin 40) of
        Some c \<Rightarrow> Inr (c, cv_Size 8 8)
      | None \<Rightarrow>
          (case extractSize env a (cv_Size 8 8) of
             Some t \<Rightarrow> Inr (Fin 40, t)
           | None \<Rightarrow> Inl (ThrowError ''Invalid arguments for CLAHE constructor'')))"
  by (cases a) (auto simp: New_first_def Let_def split: option.splits)

lemma New_first_Number: "New_first env (Number d # rest) = Inr (d, cv_Size 8 8)"
  by (simp add: New_first_other parseClipLimit_def FromMaybe_def)

lemma New_first_Undefined: "New_first env (Undefined # rest) = Inr (Fin 40, cv_Size 8 8)"
  by (simp add: New_first_other parseClipLimit_def)

lemma New_first_Null: "New_first env (Null # rest) = Inr (Fin 40, cv_Size 8 8)"
  by (simp add: New_first_other parseClipLimit_def)

lemma New_first_Array:
  "New_first env (Array arr # rest) =
     (case extractSize env (Array arr) (cv_Size 8 8) of
        Some t \<Rightarrow> Inr (Fin 40, t)
      | None \<Rightarrow> Inl (ThrowError ''Invalid arguments for CLAHE constructor''))"
  by (simp add: New_first_other parseClipLimit_def)

lemma New_second_one: "New_second env [a] (c, t) = Inr (createCLAHE (std_max_double (Fin 0) c) (sanitizeSize t))"
  by (simp add: New_second_def)

lemma New_second_two:
  "New_second env (a # b # rest) (c, t) =
     (case extractSize env b t of
        None \<Rightarrow> Inl (ThrowError ''Unable to parse tileGridSize'')
      | Some t' \<Rightarrow> Inr (createCLAHE (std_max_double (Fin 0) c) t'))"
  by (auto simp: New_second_def sanitizeSize_extractSize split: option.splits)

lemma std_max_double_pos: "dless (Fin 0) d \<Longrightarrow> std_max_double (Fin 0) d = d"
  by (simp add: std_max_double_def)

lemma cast_cround_pos:
  assumes "0 < x" "x < 4294967295 / 2"
  shows "static_cast_int env (Fin (of_int (cround x))) = cround x"
  using cast_round_pos [OF assms, of env] by simp

lemma extractSize_Number_pos:
  assumes "0 < n" "n < 4294967295 / 2"
  shows "extractSize env (Number (Fin n)) out = Some (cv_Size (max 1 (cround n)) (max 1 (cround n)))"
  by (simp add: cast_cround_pos [OF assms] std_max_int_def max_def Let_def)









lemma New_first_error:
  "New_first env info = Inl e \<Longrightarrow> e = ThrowError ''Invalid arguments for CLAHE constructor''"
  by (auto simp: New_first_def Let_def split: if_splits option.splits)

lemma New_second_error:
  "New_second env info ct = Inl e \<Longrightarrow> e = ThrowError ''Unable to parse tileGridSize''"
  by (auto simp: New_second_def Let_def split: if_splits option.splits)


section \<open>Resolving a tile-grid size\<close>

text \<open>
  Claim C1, as the code has it. For positive \<open>w\<close> and \<open>h\<close> whose roundings fit a 32-bit
  \<^verbatim>\<open>int\<close> (below \<open>2^31 - 1/2\<close>), \<open>extractSize\<close> gives the same size for the pair
  \<open>[w, h]\<close>, the object \<open>{width: w, height: h}\<close> and the nested object
  \<open>{tileGridSize: [w, h]}\<close>, whatever \<open>out\<close> held before: each component is the rounding
  clamped to a minimum of 1, which is \<open>(round w, round h)\<close> itself from \<open>1/2\<close> on.
\<close>

theorem extractSize_three_shapes:
  assumes "0 < w" "w < 4294967295 / 2" "0 < h" "h < 4294967295 / 2"
  shows "extractSize env (Array [Number (Fin w), Number (Fin h)]) out
           = Some (cv_Size (max 1 (cround w)) (max 1 (cround h)))
       \<and> extractSize env (Object [(''width'', Number (Fin w)), (''height'', Number (Fin h))]) out
           = Some (cv_Size (max 1 (cround w)) (max 1 (cround h)))
       \<and> extractSize env (Object [(''tileGridSize'', Array [Number (Fin w), Number (Fin h)])]) out
           = Some (cv_Size (max 1 (cround w)) (max 1 (cround h)))
       \<and> (1 / 2 \<le> w \<and> 1 / 2 \<le> h \<longrightarrow>
            cv_Size (max 1 (cround w)) (max 1 (cround h)) = cv_Size (cround w) (cround h))"
proof -
  have w: "static_cast_int env (std_round (Fin w)) = cround w"
    using assms(1,2) by (rule cast_round_pos)
  have h: "static_cast_int env (std_round (Fin h)) = cround h"
    using assms(3,4) by (rule cast_round_pos)
  have "1 / 2 \<le> w \<and> 1 / 2 \<le> h \<longrightarrow>
          cv_Size (max 1 (cround w)) (max 1 (cround h)) = cv_Size (cround w) (cround h)"
    using cround_ge_half [of w] cround_ge_half [of h] by auto
  then show ?thesis
    unfolding extractSize_pair extractSize_width_height extractSize_nested_pair w h
    by simp
qed

text \<open>The three shapes at \<open>w = 2.5\<close>, \<open>h = 4\<close>.\<close>

theorem extractSize_three_shapes_witness:
  "extractSize x86_env (Array [Number (Fin (5 / 2)), Number (Fin 4)]) (cv_Size 8 8) = Some (cv_Size 3 4)
   \<and> extractSize x86_env (Object [(''width'', Number (Fin (5 / 2))), (''height'', Number (Fin 4))]) (cv_Size 8 8)
       = Some (cv_Size 3 4)
   \<and> extractSize x86_env (Object [(''tileGridSize'', Array [Number (Fin (5 / 2)), Number (Fin 4)])]) (cv_Size 8 8)
       = Some (cv_Size 3 4)"
  using extractSize_three_shapes [of "5 / 2" 4 x86_env "cv_Size 8 8"]
  by (simp add: cround_def)

text \<open>Below \<open>1/2\<close> the rounding is 0 and the size is not \<open>(round w, round h)\<close>: the pair
  \<open>[0.25, 0.25]\<close> resolves to \<open>(1, 1)\<close>.\<close>

theorem extractSize_three_shapes_counterexample:
  "extractSize x86_env (Array [Number (Fin (1 / 4)), Number (Fin (1 / 4))]) (cv_Size 8 8)
     = Some (cv_Size 1 1)
   \<and> cv_Size 1 1 \<noteq> cv_Size (cround (1 / 4)) (cround (1 / 4))"
  by (simp add: FromMaybe_def sanitizeSize_simp static_cast_int_def trunc_def cround_def)

text \<open>
  Claim C8, at a concrete input on x86-64. An object with only a \<open>width\<close> (or only a
  \<open>height\<close>) field does not take the other component from \<open>out\<close>: the missing property
  reads as \<open>undefined\<close>, which \<^verbatim>\<open>Nan::To<double>\<close> converts to NaN rather than to nothing,
  so \<^verbatim>\<open>FromMaybe(out.height)\<close> is not used, and the cast of NaN is clamped to 1. With
  \<open>out = (8, 8)\<close>, \<open>{width: 4}\<close> resolves to \<open>(4, 1)\<close> and \<open>{height: 4}\<close> to \<open>(1, 4)\<close>.
\<close>

theorem extractSize_missing_height:
  "extractSize x86_env (Object [(''width'', Number (Fin 4))]) (cv_Size 8 8) = Some (cv_Size 4 1)
   \<and> extractSize x86_env (Object [(''height'', Number (Fin 4))]) (cv_Size 8 8) = Some (cv_Size 1 4)"
  by (simp add: x86_env_def Has_def Get_def FromMaybe_def sanitizeSize_simp static_cast_int_def trunc_def
      cround_def)

section \<open>The constructor\<close>

text \<open>
  Claim C3. A construct call with no arguments wraps an instance with clip limit 40.0
  and tile grid (8, 8) in the new object, and returns that object.
\<close>

theorem New_no_arguments:
  "New env True [] holder heap
     = (Inr (JSObject holder),
        heap(holder \<mapsto> \<lparr>getClipLimit = Fin 40, getTilesGridSize = \<lparr>width = 8, height = 8\<rparr>\<rparr>))"
  by (simp add: New_def New_first_def New_second_def createCLAHE_def std_max_double_def
      sanitizeSize_simp cv_Size_def)

text \<open>
  Claim C2, as the code has it. A number \<open>N > 0\<close> (an infinity included) as the only
  argument is taken as the clip limit, and the grid stays (8, 8). A number \<open>n\<close> as the
  second argument is taken as a size: for \<open>0 < n < 2^31 - 1/2\<close> the grid is the square of
  side \<open>max(1, round n)\<close>, whether the first argument is \<open>undefined\<close> or
  \<open>null\<close> (clip limit 40.0 in both cases) or a clip limit. Alone, \<open>undefined\<close> and
  \<open>null\<close> leave both defaults. An array as the only argument is taken as a size, and an
  object that is not an array as the options.
\<close>

theorem New_dispatch:
  "(dless (Fin 0) N \<longrightarrow>
      New env True [Number N] holder heap
        = (Inr (JSObject holder), heap(holder \<mapsto> createCLAHE N (cv_Size 8 8))))
   \<and> (0 < n \<and> n < 4294967295 / 2 \<longrightarrow>
      New env True [Undefined, Number (Fin n)] holder heap
        = (Inr (JSObject holder),
           heap(holder \<mapsto> createCLAHE (Fin 40) (cv_Size (max 1 (cround n)) (max 1 (cround n))))))
   \<and> (dless (Fin 0) N \<and> 0 < n \<and> n < 4294967295 / 2 \<longrightarrow>
      New env True [Number N, Number (Fin n)] holder heap
        = (Inr (JSObject holder),
           heap(holder \<mapsto> createCLAHE N (cv_Size (max 1 (cround n)) (max 1 (cround n))))))
   \<and> (0 < w \<and> w < 4294967295 / 2 \<and> 0 < h \<and> h < 4294967295 / 2 \<longrightarrow>
      New env True [Array [Number (Fin w), Number (Fin h)]] holder heap
        = (Inr (JSObject holder),
           heap(holder \<mapsto> createCLAHE (Fin 40) (cv_Size (max 1 (cround w)) (max 1 (cround h))))))
   \<and> New env True [Object obj] holder heap
        = (Inr (JSObject holder),
           heap(holder \<mapsto> createCLAHE
             (std_max_double (Fin 0)
                (if Has obj ''clipLimit''
                 then FromMaybe (To_double env (Get obj ''clipLimit'')) (Fin 40) else Fin 40))
             (case extractSize env (Object obj) (cv_Size 8 8) of
                Some t \<Rightarrow> t | None \<Rightarrow> cv_Size 8 8)))
   \<and> (0 < n \<and> n < 4294967295 / 2 \<longrightarrow>
      New env True [Null, Number (Fin n)] holder heap
        = (Inr (JSObject holder),
           heap(holder \<mapsto> createCLAHE (Fin 40) (cv_Size (max 1 (cround n)) (max 1 (cround n))))))
   \<and> New env True [Undefined] holder heap
        = (Inr (JSObject holder), heap(holder \<mapsto> createCLAHE (Fin 40) (cv_Size 8 8)))
   \<and> New env True [Null] holder heap
        = (Inr (JSObject holder), heap(holder \<mapsto> createCLAHE (Fin 40) (cv_Size 8 8)))"
proof (intro conjI impI)
  assume "dless (Fin 0) N"
  then show "New env True [Number N] holder heap
        = (Inr (JSObject holder), heap(holder \<mapsto> createCLAHE N (cv_Size 8 8)))"
    by (simp add: New_def New_first_Number New_second_one std_max_double_pos sanitizeSize_id)
next
  assume n: "0 < n \<and> n < 4294967295 / 2"
  then have "extractSize env (Number (Fin n)) (cv_Size 8 8)
               = Some (cv_Size (max 1 (cround n)) (max 1 (cround n)))"
    using extractSize_Number_pos [of n env] by blast
  then show "New env True [Undefined, Number (Fin n)] holder heap
        = (Inr (JSObject holder),
           heap(holder \<mapsto> createCLAHE (Fin 40) (cv_Size (max 1 (cround n)) (max 1 (cround n)))))"
    by (simp add: New_def New_first_Undefined New_second_two std_max_double_def)
next
  assume n: "dless (Fin 0) N \<and> 0 < n \<and> n < 4294967295 / 2"
  then have "extractSize env (Number (Fin n)) (cv_Size 8 8)
               = Some (cv_Size (max 1 (cround n)) (max 1 (cround n)))"
    using extractSize_Number_pos [of n env] by blast
  with n show "New env True [Number N, Number (Fin n)] holder heap
        = (Inr (JSObject holder),
           heap(holder \<mapsto> createCLAHE N (cv_Size (max 1 (cround n)) (max 1 (cround n)))))"
    by (simp add: New_def New_first_Number New_second_two std_max_double_pos)
next
  assume wh: "0 < w \<and> w < 4294967295 / 2 \<and> 0 < h \<and> h < 4294967295 / 2"
  then have "extractSize env (Array [Number (Fin w), Number (Fin h)]) (cv_Size 8 8)
               = Some (cv_Size (max 1 (cround w)) (max 1 (cround h)))"
    unfolding extractSize_pair
    using cast_round_pos [of w env] cast_round_pos [of h env] by simp
  then show "New env True [Array [Number (Fin w), Number (Fin h)]] holder heap
        = (Inr (JSObject holder),
           heap(holder \<mapsto> createCLAHE (Fin 40) (cv_Size (max 1 (cround w)) (max 1 (cround h)))))"
    by (simp add: New_def New_first_Array New_second_one std_max_double_def sanitizeSize_simp)
next
  have "sanitizeSize (case extractSize env (Object obj) (cv_Size 8 8) of
                        Some t \<Rightarrow> t | None \<Rightarrow> cv_Size 8 8)
          = (case extractSize env (Object obj) (cv_Size 8 8) of Some t \<Rightarrow> t | None \<Rightarrow> cv_Size 8 8)"
    by (rule sanitizeSize_extractSize_default)
  then show "New env True [Object obj] holder heap
        = (Inr (JSObject holder),
           heap(holder \<mapsto> createCLAHE
             (std_max_double (Fin 0)
                (if Has obj ''clipLimit''
                 then FromMaybe (To_double env (Get obj ''clipLimit'')) (Fin 40) else Fin 40))
             (case extractSize env (Object obj) (cv_Size 8 8) of
                Some t \<Rightarrow> t | None \<Rightarrow> cv_Size 8 8)))"
    by (simp add: New_def New_first_Object New_second_one del: extractSize.simps)
next
  assume n: "0 < n \<and> n < 4294967295 / 2"
  then have "extractSize env (Number (Fin n)) (cv_Size 8 8)
               = Some (cv_Size (max 1 (cround n)) (max 1 (cround n)))"
    using extractSize_Number_pos [of n env] by blast
  then show "New env True [Null, Number (Fin n)] holder heap
        = (Inr (JSObject holder),
           heap(holder \<mapsto> createCLAHE (Fin 40) (cv_Size (max 1 (cround n)) (max 1 (cround n)))))"
    by (simp add: New_def New_first_Null New_second_two std_max_double_def)
next
  show "New env True [Undefined] holder heap
        = (Inr (JSObject holder), heap(holder \<mapsto> createCLAHE (Fin 40) (cv_Size 8 8)))"
    by (simp add: New_def New_first_Undefined New_second_one std_max_double_def sanitizeSize_id)
next
  show "New env True [Null] holder heap
        = (Inr (JSObject holder), heap(holder \<mapsto> createCLAHE (Fin 40) (cv_Size 8 8)))"
    by (simp add: New_def New_first_Null New_second_one std_max_double_def sanitizeSize_id)
qed

text \<open>The forms at clip limit 2.5, side 3.5 and pair \<open>[3.5, 2]\<close>.\<close>

theorem New_dispatch_witness:
  "New x86_env True [Number (Fin (5 / 2))] 0 Map.empty
     = (Inr (JSObject 0), [0 \<mapsto> createCLAHE (Fin (5 / 2)) (cv_Size 8 8)])
   \<and> New x86_env True [Undefined, Number (Fin (7 / 2))] 0 Map.empty
     = (Inr (JSObject 0), [0 \<mapsto> createCLAHE (Fin 40) (cv_Size 4 4)])
   \<and> New x86_env True [Number (Fin (5 / 2)), Number (Fin (7 / 2))] 0 Map.empty
     = (Inr (JSObject 0), [0 \<mapsto> createCLAHE (Fin (5 / 2)) (cv_Size 4 4)])
   \<and> New x86_env True [Array [Number (Fin (7 / 2)), Number (Fin 2)]] 0 Map.empty
     = (Inr (JSObject 0), [0 \<mapsto> createCLAHE (Fin 40) (cv_Size 4 2)])
   \<and> New x86_env True [Null, Number (Fin (7 / 2))] 0 Map.empty
     = (Inr (JSObject 0), [0 \<mapsto> createCLAHE (Fin 40) (cv_Size 4 4)])
   \<and> New x86_env True [Null] 0 Map.empty
     = (Inr (JSObject 0), [0 \<mapsto> createCLAHE (Fin 40) (cv_Size 8 8)])"
  using New_dispatch [where env = x86_env and N = "Fin (5 / 2)" and n = "7 / 2" and w = "7 / 2"
      and h = 2 and holder = 0 and heap = Map.empty]
  by (simp add: cround_def)

text \<open>A side below \<open>1/2\<close> rounds to 0 and is clamped: \<open>new CLAHE(undefined, 0.25)\<close> has
  the grid (1, 1), not \<open>(round 0.25, round 0.25) = (0, 0)\<close>.\<close>

theorem New_dispatch_counterexample:
  "New x86_env True [Undefined, Number (Fin (1 / 4))] 0 Map.empty
     = (Inr (JSObject 0), [0 \<mapsto> createCLAHE (Fin 40) (cv_Size 1 1)])
   \<and> cv_Size 1 1 \<noteq> cv_Size (cround (1 / 4)) (cround (1 / 4))"
  by (simp add: New_def New_first_Undefined New_second_two std_max_double_def static_cast_int_def
      trunc_def cround_def std_max_int_def)


text \<open>
  Claim C6. When the only argument is an options object from which \<open>extractSize\<close>
  resolves no size, construction succeeds with the grid (8, 8). When a second argument
  resolves to no size, construction fails with \<open>Unable to parse tileGridSize\<close> and the heap
  is untouched: always so after an options object, and after any other first argument
  unless that one was itself rejected (the failure is then the earlier
  \<open>Invalid arguments for CLAHE constructor\<close>).
\<close>

theorem unresolved_size:
  "(extractSize env (Object obj) (cv_Size 8 8) = None \<longrightarrow>
      New env True [Object obj] holder heap
        = (Inr (JSObject holder),
           heap(holder \<mapsto> createCLAHE
             (std_max_double (Fin 0)
                (if Has obj ''clipLimit''
                 then FromMaybe (To_double env (Get obj ''clipLimit'')) (Fin 40) else Fin 40))
             (cv_Size 8 8))))
   \<and> (extractSize env b (cv_Size 8 8) = None \<longrightarrow>
      New env True (Object obj # b # rest) holder heap
        = (Inl (ThrowError ''Unable to parse tileGridSize''), heap))
   \<and> (extractSize env b (cv_Size 8 8) = None \<longrightarrow>
      New env True (a # b # rest) holder heap
        = (Inl (ThrowError
             (if \<not> (IsObject a \<and> \<not> IsArray a) \<and> parseClipLimit env a (Fin 40) = None
                 \<and> extractSize env a (cv_Size 8 8) = None
              then ''Invalid arguments for CLAHE constructor''
              else ''Unable to parse tileGridSize'')), heap))"
proof (intro conjI impI)
  assume "extractSize env (Object obj) (cv_Size 8 8) = None"
  then show "New env True [Object obj] holder heap
        = (Inr (JSObject holder),
           heap(holder \<mapsto> createCLAHE
             (std_max_double (Fin 0)
                (if Has obj ''clipLimit''
                 then FromMaybe (To_double env (Get obj ''clipLimit'')) (Fin 40) else Fin 40))
             (cv_Size 8 8)))"
    by (simp add: New_def New_first_Object New_second_one sanitizeSize_id del: extractSize.simps)
next
  assume "extractSize env b (cv_Size 8 8) = None"
  then have none: "extractSize env b t = None" for t
    by (rule extractSize_None_out)
  show "New env True (Object obj # b # rest) holder heap
        = (Inl (ThrowError ''Unable to parse tileGridSize''), heap)"
    by (simp add: New_def New_first_Object New_second_two none del: extractSize.simps)
next
  assume "extractSize env b (cv_Size 8 8) = None"
  then have none: "extractSize env b t = None" for t
    by (rule extractSize_None_out)
  show "New env True (a # b # rest) holder heap
        = (Inl (ThrowError
             (if \<not> (IsObject a \<and> \<not> IsArray a) \<and> parseClipLimit env a (Fin 40) = None
                 \<and> extractSize env a (cv_Size 8 8) = None
              then ''Invalid arguments for CLAHE constructor''
              else ''Unable to parse tileGridSize'')), heap)"
  proof (cases "IsObject a \<and> \<not> IsArray a")
    case True
    then obtain obj' where "a = Object obj'"
      by (cases a) simp_all
    then show ?thesis
      by (simp add: New_def New_first_Object New_second_two none del: extractSize.simps)
  next
    case False
    then show ?thesis
      by (auto simp: New_def New_first_other New_second_two none
          simp del: extractSize.simps split: option.splits)
  qed
qed

text \<open>The options \<open>{tileGridSize: "bad"}\<close> alone, then \<open>"bad"\<close> and the same options as a
  second argument, then \<open>"bad"\<close> twice.\<close>

theorem unresolved_size_witness:
  "New x86_env True [Object [(''tileGridSize'', String ''bad'')]] 0 Map.empty
     = (Inr (JSObject 0), [0 \<mapsto> createCLAHE (Fin 40) (cv_Size 8 8)])
   \<and> New x86_env True [Object [], String ''bad''] 0 Map.empty
     = (Inl (ThrowError ''Unable to parse tileGridSize''), Map.empty)
   \<and> New x86_env True [Number (Fin 2), Object [(''tileGridSize'', String ''bad'')]] 0 Map.empty
     = (Inl (ThrowError ''Unable to parse tileGridSize''), Map.empty)
   \<and> New x86_env True [String ''bad'', String ''bad''] 0 Map.empty
     = (Inl (ThrowError ''Invalid arguments for CLAHE constructor''), Map.empty)"
  using
    unresolved_size [where env = x86_env and obj = "[(''tileGridSize'', String ''bad'')]"
      and holder = 0 and heap = Map.empty and b = "String ''bad''" and a = "String ''bad''"
      and rest = "[]"]
    unresolved_size [where env = x86_env and obj = "[]"
      and holder = 0 and heap = Map.empty and b = "String ''bad''" and a = "String ''bad''"
      and rest = "[]"]
    unresolved_size [where env = x86_env and obj = "[]"
      and holder = 0 and heap = Map.empty and b = "Object [(''tileGridSize'', String ''bad'')]"
      and a = "Number (Fin 2)" and rest = "[]"]
  by (simp add: Has_def Get_def parseClipLimit_def std_max_double_def)


text \<open>
  Claim C5, as the code has it. A message given to \<^verbatim>\<open>throwError\<close> is one of three: the
  constructor's \<open>Invalid arguments for CLAHE constructor\<close> and
  \<open>Unable to parse tileGridSize\<close>, and \<open>Unable to parse tilesGridSize\<close> in
  \<open>setTilesGridSize\<close>. No other method calls \<^verbatim>\<open>throwError\<close>.
\<close>

theorem ThrowError_messages:
  "(fst (New env isConstructCall info holder heap) = Inl (ThrowError m) \<longrightarrow>
      m = ''Invalid arguments for CLAHE constructor'' \<or> m = ''Unable to parse tileGridSize'')
   \<and> (fst (SetTilesGridSize env this info heap) = Inl (ThrowError m) \<longrightarrow>
      m = ''Unable to parse tilesGridSize'')
   \<and> fst (SetClipLimit env this info heap) \<noteq> Inl (ThrowError m)
   \<and> fst (Apply env this info heap) \<noteq> Inl (ThrowError m)
   \<and> fst (GetClipLimit env this info heap) \<noteq> Inl (ThrowError m)
   \<and> fst (GetTilesGridSize env this info heap) \<noteq> Inl (ThrowError m)
   \<and> fst (CollectGarbage env this info heap) \<noteq> Inl (ThrowError m)"
proof (intro conjI impI)
  assume "fst (New env isConstructCall info holder heap) = Inl (ThrowError m)"
  then show "m = ''Invalid arguments for CLAHE constructor'' \<or> m = ''Unable to parse tileGridSize''"
    by (auto simp: New_def split: if_splits sum.splits
        dest!: New_first_error New_second_error)
next
  assume "fst (SetTilesGridSize env this info heap) = Inl (ThrowError m)"
  then show "m = ''Unable to parse tilesGridSize''"
    by (auto simp: SetTilesGridSize_def Let_def split: option.splits)
next
  show "fst (SetClipLimit env this info heap) \<noteq> Inl (ThrowError m)"
    by (auto simp: SetClipLimit_def split: option.splits)
  show "fst (Apply env this info heap) \<noteq> Inl (ThrowError m)"
    by (auto simp: Apply_def split: option.splits)
  show "fst (GetClipLimit env this info heap) \<noteq> Inl (ThrowError m)"
    by (auto simp: GetClipLimit_def split: option.splits)
  show "fst (GetTilesGridSize env this info heap) \<noteq> Inl (ThrowError m)"
    by (auto simp: GetTilesGridSize_def Let_def split: option.splits)
  show "fst (CollectGarbage env this info heap) \<noteq> Inl (ThrowError m)"
    by (auto simp: CollectGarbage_def split: option.splits)
qed

text \<open>Both methods on the argument \<open>"bad"\<close>.\<close>

theorem ThrowError_messages_witness:
  "fst (New x86_env True [String ''bad''] 1 [0 \<mapsto> inst0])
     = Inl (ThrowError ''Invalid arguments for CLAHE constructor'')
   \<and> fst (SetTilesGridSize x86_env 0 [String ''bad''] [0 \<mapsto> inst0])
     = Inl (ThrowError ''Unable to parse tilesGridSize'')"
proof -
  have n: "fst (New x86_env True [String ''bad''] 1 [0 \<mapsto> inst0])
             = Inl (ThrowError ''Invalid arguments for CLAHE constructor'')"
    by (simp add: New_def New_first_other parseClipLimit_def)
  have s: "fst (SetTilesGridSize x86_env 0 [String ''bad''] [0 \<mapsto> inst0])
             = Inl (ThrowError ''Unable to parse tilesGridSize'')"
    by (simp add: SetTilesGridSize_def)
  show ?thesis
    using n s
      ThrowError_messages [where env = x86_env and isConstructCall = True
        and info = "[String ''bad'']" and holder = 1 and heap = "[0 \<mapsto> inst0]"
        and m = "''Invalid arguments for CLAHE constructor''"]
      ThrowError_messages [where env = x86_env and this = 0
        and info = "[String ''bad'']" and heap = "[0 \<mapsto> inst0]"
        and m = "''Unable to parse tilesGridSize''"]
    by simp
qed

text \<open>The message of \<open>setTilesGridSize("bad")\<close> is neither of the constructor's two.\<close>

theorem ThrowError_messages_counterexample:
  "fst (SetTilesGridSize x86_env 0 [String ''bad''] [0 \<mapsto> inst0])
     = Inl (ThrowError ''Unable to parse tilesGridSize'')
   \<and> ''Unable to parse tilesGridSize'' \<noteq> ''Invalid arguments for CLAHE constructor''
   \<and> ''Unable to parse tilesGridSize'' \<noteq> ''Unable to parse tileGridSize''"
  by (simp add: SetTilesGridSize_def)


section \<open>The setters, collectGarbage and apply\<close>





text \<open>
  Claim C7. A failing \<open>setClipLimit\<close>, \<open>setTilesGridSize\<close> or constructor call leaves the
  heap as it was: no configuration changes, and a failing constructor wraps no instance.
\<close>

theorem failure_leaves_state:
  "(fst (SetClipLimit env this info heap) = Inl e \<longrightarrow> snd (SetClipLimit env this info heap) = heap)
   \<and> (fst (SetTilesGridSize env this info heap) = Inl e \<longrightarrow>
        snd (SetTilesGridSize env this info heap) = heap)
   \<and> (fst (New env isConstructCall info holder heap) = Inl e \<longrightarrow>
        snd (New env isConstructCall info holder heap) = heap)"
proof (intro conjI impI)
  assume "fst (SetClipLimit env this info heap) = Inl e"
  then show "snd (SetClipLimit env this info heap) = heap"
    by (auto simp: SetClipLimit_def split: option.splits)
next
  assume "fst (SetTilesGridSize env this info heap) = Inl e"
  then show "snd (SetTilesGridSize env this info heap) = heap"
    by (auto simp: SetTilesGridSize_def Let_def split: option.splits)
next
  assume "fst (New env isConstructCall info holder heap) = Inl e"
  then show "snd (New env isConstructCall info holder heap) = heap"
    by (auto simp: New_def split: if_splits sum.splits)
qed

text \<open>The three calls on the argument \<open>"bad"\<close>.\<close>

theorem failure_leaves_state_witness:
  "SetClipLimit x86_env 0 [String ''bad''] [0 \<mapsto> inst0] = (Inl (ReThrow 0), [0 \<mapsto> inst0])
   \<and> SetTilesGridSize x86_env 0 [String ''bad''] [0 \<mapsto> inst0]
       = (Inl (ThrowError ''Unable to parse tilesGridSize''), [0 \<mapsto> inst0])
   \<and> New x86_env True [String ''bad''] 1 [0 \<mapsto> inst0]
       = (Inl (ThrowError ''Invalid arguments for CLAHE constructor''), [0 \<mapsto> inst0])"
proof -
  have c: "fst (SetClipLimit x86_env 0 [String ''bad''] [0 \<mapsto> inst0]) = Inl (ReThrow 0)"
    by (simp add: SetClipLimit_def Converter_arg_def x86_env_def)
  have t: "fst (SetTilesGridSize x86_env 0 [String ''bad''] [0 \<mapsto> inst0])
             = Inl (ThrowError ''Unable to parse tilesGridSize'')"
    by (simp add: SetTilesGridSize_def)
  have n: "fst (New x86_env True [String ''bad''] 1 [0 \<mapsto> inst0])
             = Inl (ThrowError ''Invalid arguments for CLAHE constructor'')"
    by (simp add: New_def New_first_other parseClipLimit_def)
  show ?thesis
    using c t n
      failure_leaves_state [where env = x86_env and this = 0 and info = "[String ''bad'']"
        and heap = "[0 \<mapsto> inst0]" and e = "ReThrow 0"]
      failure_leaves_state [where env = x86_env and this = 0 and info = "[String ''bad'']"
        and heap = "[0 \<mapsto> inst0]" and e = "ThrowError ''Unable to parse tilesGridSize''"]
      failure_leaves_state [where env = x86_env and isConstructCall = True and holder = 1
        and info = "[String ''bad'']" and heap = "[0 \<mapsto> inst0]"
        and e = "ThrowError ''Invalid arguments for CLAHE constructor''"]
    by (simp add: prod_eq_iff)
qed


text \<open>
  Claim C9. Whenever \<open>setClipLimit\<close>, \<open>setTilesGridSize\<close> or \<open>collectGarbage\<close> returns a
  value, that value is the receiver; \<open>collectGarbage\<close> does so on every receiver that
  wraps an instance, and changes nothing.
\<close>

theorem setters_return_receiver:
  "(fst (SetClipLimit env this info heap) = Inr r \<longrightarrow> r = JSObject this)
   \<and> (fst (SetTilesGridSize env this info heap) = Inr r \<longrightarrow> r = JSObject this)
   \<and> (fst (CollectGarbage env this info heap) = Inr r \<longrightarrow> r = JSObject this)
   \<and> (heap this = Some self \<longrightarrow> CollectGarbage env this info heap = (Inr (JSObject this), heap))"
proof (intro conjI impI)
  assume "fst (SetClipLimit env this info heap) = Inr r"
  then show "r = JSObject this"
    by (auto simp: SetClipLimit_def split: option.splits)
next
  assume "fst (SetTilesGridSize env this info heap) = Inr r"
  then show "r = JSObject this"
    by (auto simp: SetTilesGridSize_def Let_def split: option.splits)
next
  assume "fst (CollectGarbage env this info heap) = Inr r"
  then show "r = JSObject this"
    by (auto simp: CollectGarbage_def split: option.splits)
next
  assume "heap this = Some self"
  then show "CollectGarbage env this info heap = (Inr (JSObject this), heap)"
    by (simp add: CollectGarbage_def)
qed

text \<open>The three methods on the object 3.\<close>

theorem setters_return_receiver_witness:
  "fst (SetClipLimit x86_env 3 [Number (Fin 2)] [3 \<mapsto> inst0]) = Inr (JSObject 3)
   \<and> fst (SetTilesGridSize x86_env 3 [Number (Fin 2)] [3 \<mapsto> inst0]) = Inr (JSObject 3)
   \<and> CollectGarbage x86_env 3 [] [3 \<mapsto> inst0] = (Inr (JSObject 3), [3 \<mapsto> inst0])"
proof -
  have c: "fst (SetClipLimit x86_env 3 [Number (Fin 2)] [3 \<mapsto> inst0]) = Inr (JSObject 3)"
    by (simp add: SetClipLimit_def Converter_arg_def x86_env_def)
  have t: "fst (SetTilesGridSize x86_env 3 [Number (Fin 2)] [3 \<mapsto> inst0]) = Inr (JSObject 3)"
    by (simp add: SetTilesGridSize_def Let_def)
  show ?thesis
    using c t
      setters_return_receiver [where env = x86_env and this = 3 and info = "[Number (Fin 2)]"
        and heap = "[3 \<mapsto> inst0]" and r = "JSObject 3" and self = inst0]
      setters_return_receiver [where env = x86_env and this = 3 and info = "[]"
        and heap = "[3 \<mapsto> inst0]" and r = "JSObject 3" and self = inst0]
    by simp
qed


text \<open>
  Claim C10. With \<open>undefined\<close> or \<open>null\<close> as its second argument, \<open>apply\<close> does exactly
  what it does with the source alone: the second argument is not converted, so no error
  comes from it, and when the source converts the result is the equalisation into a
  default-constructed matrix.
\<close>

theorem Apply_absent_destination:
  "Apply env this (src # Undefined # rest) heap = Apply env this [src] heap
   \<and> Apply env this (src # Null # rest) heap = Apply env this [src] heap
   \<and> fst (Apply env this (src # Undefined # rest) heap) \<noteq> Inl (ReThrow 1)
   \<and> fst (Apply env this (src # Null # rest) heap) \<noteq> Inl (ReThrow 1)
   \<and> (heap this = Some self \<and> Mat_unwrap env src = Some s \<longrightarrow>
        Apply env this (src # Undefined # rest) heap
          = (Inr (WrappedMat (clahe_apply env self s (Mat_empty env))), heap)
        \<and> Apply env this (src # Null # rest) heap
          = (Inr (WrappedMat (clahe_apply env self s (Mat_empty env))), heap)
        \<and> Apply env this [src] heap
          = (Inr (WrappedMat (clahe_apply env self s (Mat_empty env))), heap))"
  by (auto simp: Apply_def Converter_arg_def split: option.splits)

text \<open>A source that unwraps to the matrix 0, equalised to 1.\<close>

theorem Apply_absent_destination_witness:
  "Apply x86_env 0 [Object [], Undefined] [0 \<mapsto> inst0] = (Inr (WrappedMat 1), [0 \<mapsto> inst0])
   \<and> Apply x86_env 0 [Object [], Null] [0 \<mapsto> inst0] = (Inr (WrappedMat 1), [0 \<mapsto> inst0])
   \<and> Apply x86_env 0 [Object []] [0 \<mapsto> inst0] = (Inr (WrappedMat 1), [0 \<mapsto> inst0])"
proof -
  have u: "Mat_unwrap x86_env (Object []) = Some 0"
    by (simp add: x86_env_def)
  have a: "clahe_apply x86_env inst0 0 (Mat_empty x86_env) = 1"
    by (simp add: x86_env_def inst0_def createCLAHE_def)
  show ?thesis
    using u a
      Apply_absent_destination [where env = x86_env and this = 0 and src = "Object []"
        and rest = "[]" and heap = "[0 \<mapsto> inst0]" and self = inst0 and s = 0]
    by simp
qed


end
